theory Spec2Isabelle
  imports Main "HOL-Library.Sublist"
begin

section \<open>Data model (package model)\<close>

text \<open>
  Go strings are byte sequences, modelled as \<^typ>\<open>string\<close>. A \<open>primitive.ObjectID\<close>
  and a \<open>time.Time\<close> are kept abstract as numbers: the program only creates, copies and
  stores them. \<open>UCDBool\<close> is a Go \<open>bool\<close>. A nil pointer is \<^term>\<open>None\<close>; a nil slice
  and an empty slice are both \<^term>\<open>[]\<close> (the program only takes their length, ranges
  over them and appends to them).
\<close>

type_synonym ObjectID = nat

type_synonym Time = int

definition NilObjectID :: ObjectID where
  "NilObjectID = 0"

definition zeroTime :: Time where
  "zeroTime = 0"

record NameAlias =
  Alias :: string
  Type :: string

text \<open>
  The struct \<open>CodePoint\<close> of \<open>repertoire.go\<close>. Go promotes the fields of the embedded
  structs (\<open>CodePointProperties\<close>, \<open>AgeProperties\<close>, \<open>NameProperties\<close>, \<open>BidiProperties\<close>,
  \<open>DecompositionProperties\<close>, \<open>NumericProperties\<close>, \<open>JoiningProperties\<close>,
  \<open>CaseProperties\<close>, \<open>ScriptProperties\<close>), so the record lists them flat, in the order
  of the source.
\<close>

record CodePoint =
  ID :: ObjectID
  CP :: string
  FirstCP :: string
  LastCP :: string
  Age :: string
  Name :: string
  Name1 :: string
  NameAliases :: "NameAlias list"
  Block :: string
  GeneralCategory :: string
  CombiningClass :: int
  BidiClass :: string
  BidiMirrored :: bool
  BidiMirroringGlyph :: string
  BidiControl :: bool
  BidiPairedBracketType :: string
  BidiPairedBracket :: string
  DecompositionType :: string
  DecompositionMapping :: string
  CompositionExclusion :: bool
  FullCompositionExclusion :: bool
  NFC_QC :: string
  NFD_QC :: string
  NFKC_QC :: string
  NFKD_QC :: string
  XO_NFC :: bool
  XO_NFD :: bool
  XO_NFKC :: bool
  XO_NFKD :: bool
  FC_NFKC :: string
  NumericType :: string
  NumericValue :: string
  JoiningType :: string
  JoiningGroup :: string
  JoinControl :: bool
  LineBreak :: string
  EastAsianWidth :: string
  Uppercase :: bool
  Lowercase :: bool
  OtherUppercase :: bool
  OtherLowercase :: bool
  SimpleUppercase :: string
  SimpleLowercase :: string
  SimpleTitlecase :: string
  UppercaseMapping :: string
  LowercaseMapping :: string
  TitlecaseMapping :: string
  SimpleCaseFolding :: string
  CaseFolding :: string
  CaseIgnorable :: bool
  Cased :: bool
  ChangesWhenCasefolded :: bool
  ChangesWhenCasemapped :: bool
  ChangesWhenLowercased :: bool
  ChangesWhenNFKCCasefolded :: bool
  ChangesWhenTitlecased :: bool
  ChangesWhenUppercased :: bool
  NFKC_CF :: string
  NFKC_SCF :: string
  Script :: string
  ScriptExtensions :: string
  ISOComment :: string
  HangulSyllableType :: string
  JamoShortName :: string
  IndicSyllabicCategory :: string
  IndicMatraCategory :: string
  IndicPositionalCategory :: string
  IndicConjunctBreak :: string
  IDStart :: bool
  OtherIDStart :: bool
  XIDStart :: bool
  IDContinue :: bool
  OtherIDContinue :: bool
  XIDContinue :: bool
  IDCompatMathStart :: bool
  IDCompatMathContinue :: bool
  PatternSyntax :: bool
  PatternWhiteSpace :: bool
  Dash :: bool
  Hyphen :: bool
  QuotationMark :: bool
  TerminalPunctuation :: bool
  SentenceTerminal :: bool
  Diacritic :: bool
  Extender :: bool
  PrependedConcatenationMark :: bool
  Alphabetic :: bool
  OtherAlphabetic :: bool
  Math :: bool
  OtherMath :: bool
  HexDigit :: bool
  ASCIIHexDigit :: bool
  DefaultIgnorable :: bool
  OtherDefaultIgnorable :: bool
  LogicalOrderException :: bool
  WhiteSpace :: bool
  VerticalOrientation :: string
  RegionalIndicator :: bool
  GraphemeBase :: bool
  GraphemeExtend :: bool
  OtherGraphemeExtend :: bool
  GraphemeLink :: bool
  GraphemeClusterBreak :: string
  WordBreak :: string
  SentenceBreak :: string
  Ideographic :: bool
  UnifiedIdeograph :: bool
  EquivalentUnifiedIdeograph :: string
  IDSBinaryOperator :: bool
  IDSTrinaryOperator :: bool
  IDSUnaryOperator :: bool
  Radical :: bool
  Deprecated :: bool
  VariationSelector :: bool
  Noncharacter :: bool
  Emoji :: bool
  EmojiPresentation :: bool
  EmojiModifier :: bool
  EmojiModifierBase :: bool
  EmojiComponent :: bool
  ExtendedPictographic :: bool
  KDefinition :: string
  KMandarin :: string
  KCantonese :: string
  KJapaneseKun :: string
  KJapaneseOn :: string
  KKorean :: string
  KVietnamese :: string
  KTotalStrokes :: string
  KSimplifiedVariant :: string
  KTraditionalVariant :: string
  CreatedAt :: Time
  UpdatedAt :: Time

text \<open>The zero value of the struct, from which the examples are built.\<close>

definition zeroCodePoint :: CodePoint where
  "zeroCodePoint = \<lparr>
     ID = NilObjectID,
     CP = '''',
     FirstCP = '''',
     LastCP = '''',
     Age = '''',
     Name = '''',
     Name1 = '''',
     NameAliases = [],
     Block = '''',
     GeneralCategory = '''',
     CombiningClass = 0,
     BidiClass = '''',
     BidiMirrored = False,
     BidiMirroringGlyph = '''',
     BidiControl = False,
     BidiPairedBracketType = '''',
     BidiPairedBracket = '''',
     DecompositionType = '''',
     DecompositionMapping = '''',
     CompositionExclusion = False,
     FullCompositionExclusion = False,
     NFC_QC = '''',
     NFD_QC = '''',
     NFKC_QC = '''',
     NFKD_QC = '''',
     XO_NFC = False,
     XO_NFD = False,
     XO_NFKC = False,
     XO_NFKD = False,
     FC_NFKC = '''',
     NumericType = '''',
     NumericValue = '''',
     JoiningType = '''',
     JoiningGroup = '''',
     JoinControl = False,
     LineBreak = '''',
     EastAsianWidth = '''',
     Uppercase = False,
     Lowercase = False,
     OtherUppercase = False,
     OtherLowercase = False,
     SimpleUppercase = '''',
     SimpleLowercase = '''',
     SimpleTitlecase = '''',
     UppercaseMapping = '''',
     LowercaseMapping = '''',
     TitlecaseMapping = '''',
     SimpleCaseFolding = '''',
     CaseFolding = '''',
     CaseIgnorable = False,
     Cased = False,
     ChangesWhenCasefolded = False,
     ChangesWhenCasemapped = False,
     ChangesWhenLowercased = False,
     ChangesWhenNFKCCasefolded = False,
     ChangesWhenTitlecased = False,
     ChangesWhenUppercased = False,
     NFKC_CF = '''',
     NFKC_SCF = '''',
     Script = '''',
     ScriptExtensions = '''',
     ISOComment = '''',
     HangulSyllableType = '''',
     JamoShortName = '''',
     IndicSyllabicCategory = '''',
     IndicMatraCategory = '''',
     IndicPositionalCategory = '''',
     IndicConjunctBreak = '''',
     IDStart = False,
     OtherIDStart = False,
     XIDStart = False,
     IDContinue = False,
     OtherIDContinue = False,
     XIDContinue = False,
     IDCompatMathStart = False,
     IDCompatMathContinue = False,
     PatternSyntax = False,
     PatternWhiteSpace = False,
     Dash = False,
     Hyphen = False,
     QuotationMark = False,
     TerminalPunctuation = False,
     SentenceTerminal = False,
     Diacritic = False,
     Extender = False,
     PrependedConcatenationMark = False,
     Alphabetic = False,
     OtherAlphabetic = False,
     Math = False,
     OtherMath = False,
     HexDigit = False,
     ASCIIHexDigit = False,
     DefaultIgnorable = False,
     OtherDefaultIgnorable = False,
     LogicalOrderException = False,
     WhiteSpace = False,
     VerticalOrientation = '''',
     RegionalIndicator = False,
     GraphemeBase = False,
     GraphemeExtend = False,
     OtherGraphemeExtend = False,
     GraphemeLink = False,
     GraphemeClusterBreak = '''',
     WordBreak = '''',
     SentenceBreak = '''',
     Ideographic = False,
     UnifiedIdeograph = False,
     EquivalentUnifiedIdeograph = '''',
     IDSBinaryOperator = False,
     IDSTrinaryOperator = False,
     IDSUnaryOperator = False,
     Radical = False,
     Deprecated = False,
     VariationSelector = False,
     Noncharacter = False,
     Emoji = False,
     EmojiPresentation = False,
     EmojiModifier = False,
     EmojiModifierBase = False,
     EmojiComponent = False,
     ExtendedPictographic = False,
     KDefinition = '''',
     KMandarin = '''',
     KCantonese = '''',
     KJapaneseKun = '''',
     KJapaneseOn = '''',
     KKorean = '''',
     KVietnamese = '''',
     KTotalStrokes = '''',
     KSimplifiedVariant = '''',
     KTraditionalVariant = '''',
     CreatedAt = zeroTime,
     UpdatedAt = zeroTime\<rparr>"

record Repertoire =
  Reserved :: "CodePoint list"
  Noncharacter :: "CodePoint list"
  Surrogate :: "CodePoint list"
  CodePoints :: "CodePoint list"

record Block =
  ID :: ObjectID
  FirstCP :: string
  LastCP :: string
  Name :: string
  CreatedAt :: Time
  UpdatedAt :: Time

record Blocks =
  Blocks :: "Block list"

record UCD =
  ID :: ObjectID
  Xmlns :: string
  Description :: string
  Repertoire :: "Repertoire option"
  Blocks :: "Blocks option"
  CreatedAt :: Time
  UpdatedAt :: Time
  Version :: string

section \<open>Validation (parser.go)\<close>

text \<open>
  The two errors of \<open>ValidateCodePoint\<close>:
  \<open>ErrNoCP\<close> is "code point must have either cp or first-cp",
  \<open>ErrNoLastCP\<close> is "code point with first-cp must also have last-cp".
\<close>

datatype validation_error = ErrNoCP | ErrNoLastCP

definition ValidateCodePoint :: "CodePoint \<Rightarrow> validation_error option" where
  "ValidateCodePoint cp =
     (if CP cp = '''' \<and> CodePoint.FirstCP cp = '''' then Some ErrNoCP
      else if CodePoint.FirstCP cp \<noteq> '''' \<and> CodePoint.LastCP cp = '''' then Some ErrNoLastCP
      else None)"

section \<open>Flattening (parser.go)\<close>

text \<open>
  \<open>getCodePointsFromRepertoire\<close> appends the four slices of the repertoire to one
  slice. The two \<open>for ... range\<close> loops copy each element, set one flag on the copy and
  append it; they are the folds \<open>appendReserved\<close> and \<open>appendNoncharacter\<close> over the
  accumulated slice.
\<close>

fun appendReserved :: "CodePoint list \<Rightarrow> CodePoint list \<Rightarrow> CodePoint list" where
  "appendReserved allCodePoints [] = allCodePoints"
| "appendReserved allCodePoints (cp # rest) =
     appendReserved (allCodePoints @ [cp\<lparr>Deprecated := True\<rparr>]) rest"

fun appendNoncharacter :: "CodePoint list \<Rightarrow> CodePoint list \<Rightarrow> CodePoint list" where
  "appendNoncharacter allCodePoints [] = allCodePoints"
| "appendNoncharacter allCodePoints (cp # rest) =
     appendNoncharacter (allCodePoints @ [cp\<lparr>CodePoint.Noncharacter := True\<rparr>]) rest"

definition getCodePointsFromRepertoire :: "Repertoire option \<Rightarrow> CodePoint list" where
  "getCodePointsFromRepertoire repertoire =
     (case repertoire of
        None \<Rightarrow> []
      | Some r \<Rightarrow>
          (let allCodePoints = [] @ CodePoints r;
               allCodePoints = appendReserved allCodePoints (Reserved r);
               allCodePoints = appendNoncharacter allCodePoints (Repertoire.Noncharacter r);
               allCodePoints = allCodePoints @ Surrogate r
           in allCodePoints))"

definition ExtractAllCodePoints :: "UCD \<Rightarrow> CodePoint list" where
  "ExtractAllCodePoints ucd =
     (case Repertoire ucd of
        None \<Rightarrow> []
      | Some r \<Rightarrow> [] @ getCodePointsFromRepertoire (Some r))"

definition ExtractBlocks :: "UCD \<Rightarrow> Block list" where
  "ExtractBlocks ucd = (case UCD.Blocks ucd of None \<Rightarrow> [] | Some b \<Rightarrow> Blocks.Blocks b)"

section \<open>Normalization (parser.go)\<close>

text \<open>
  \<open>strings.TrimSpace\<close> removes the leading and the trailing white space of a string,
  where white space is what \<open>unicode.IsSpace\<close> accepts: U+0009 to U+000D, U+0020,
  U+0085, U+00A0, U+1680, U+2000 to U+200A, U+2028, U+2029, U+202F, U+205F and U+3000.
  On the bytes of the string, a leading (trailing) white-space character is a prefix
  (suffix) that is the UTF-8 encoding of one of them; \<open>spaceEncodings\<close> lists these
  encodings. No encoding in the list is a prefix or a suffix of another one, and a byte
  that starts or ends none of them is not white space (Go decodes an ill-formed byte to
  U+FFFD), so \<open>trimLeftSpace\<close> and \<open>trimRightSpace\<close> remove what
  \<open>strings.TrimLeftFunc\<close> and \<open>strings.TrimRightFunc\<close> remove with
  \<open>unicode.IsSpace\<close>.
\<close>

definition spaceEncodings :: "string list" where
  "spaceEncodings =
     [[CHR 0x09], [CHR 0x0A], [CHR 0x0B], [CHR 0x0C], [CHR 0x0D], [CHR 0x20],
      [CHR 0xC2, CHR 0x85], [CHR 0xC2, CHR 0xA0],
      [CHR 0xE1, CHR 0x9A, CHR 0x80],
      [CHR 0xE2, CHR 0x80, CHR 0x80], [CHR 0xE2, CHR 0x80, CHR 0x81],
      [CHR 0xE2, CHR 0x80, CHR 0x82], [CHR 0xE2, CHR 0x80, CHR 0x83],
      [CHR 0xE2, CHR 0x80, CHR 0x84], [CHR 0xE2, CHR 0x80, CHR 0x85],
      [CHR 0xE2, CHR 0x80, CHR 0x86], [CHR 0xE2, CHR 0x80, CHR 0x87],
      [CHR 0xE2, CHR 0x80, CHR 0x88], [CHR 0xE2, CHR 0x80, CHR 0x89],
      [CHR 0xE2, CHR 0x80, CHR 0x8A],
      [CHR 0xE2, CHR 0x80, CHR 0xA8], [CHR 0xE2, CHR 0x80, CHR 0xA9],
      [CHR 0xE2, CHR 0x80, CHR 0xAF],
      [CHR 0xE2, CHR 0x81, CHR 0x9F],
      [CHR 0xE3, CHR 0x80, CHR 0x80]]"

definition leadingSpace :: "string \<Rightarrow> nat" where
  "leadingSpace s =
     (case List.find (\<lambda>p. prefix p s) spaceEncodings of None \<Rightarrow> 0 | Some p \<Rightarrow> length p)"

definition trailingSpace :: "string \<Rightarrow> nat" where
  "trailingSpace s =
     (case List.find (\<lambda>p. suffix p s) spaceEncodings of None \<Rightarrow> 0 | Some p \<Rightarrow> length p)"

function trimLeftSpace :: "string \<Rightarrow> string" where
  "trimLeftSpace s =
     (if leadingSpace s = 0 then s else trimLeftSpace (drop (leadingSpace s) s))"
  by pat_completeness auto
termination
proof (relation "measure length")
  show "wf (measure length)" by simp
next
  fix s :: string
  assume "leadingSpace s \<noteq> 0"
  moreover have "leadingSpace s \<le> length s"
    by (auto simp: leadingSpace_def find_Some_iff prefix_length_le split: option.splits)
  ultimately show "(drop (leadingSpace s) s, s) \<in> measure length" by simp
qed

function trimRightSpace :: "string \<Rightarrow> string" where
  "trimRightSpace s =
     (if trailingSpace s = 0 then s
      else trimRightSpace (take (length s - trailingSpace s) s))"
  by pat_completeness auto
termination
proof (relation "measure length")
  show "wf (measure length)" by simp
next
  fix s :: string
  assume "trailingSpace s \<noteq> 0"
  moreover have "trailingSpace s \<le> length s"
    by (auto simp: trailingSpace_def find_Some_iff suffix_length_le split: option.splits)
  ultimately show "(take (length s - trailingSpace s) s, s) \<in> measure length" by simp
qed

declare trimLeftSpace.simps [simp del] trimRightSpace.simps [simp del]

definition TrimSpace :: "string \<Rightarrow> string" where
  "TrimSpace s = trimRightSpace (trimLeftSpace s)"

text \<open>
  \<open>NormalizeCodePoint\<close> updates the record behind its pointer; the model returns the
  updated record. The statements are kept in the order of the source.
\<close>

definition NormalizeCodePoint :: "CodePoint \<Rightarrow> CodePoint" where
  "NormalizeCodePoint cp0 =
     (let cp = cp0\<lparr>CodePoint.Name := TrimSpace (CodePoint.Name cp0)\<rparr>;
          cp = cp\<lparr>Name1 := TrimSpace (Name1 cp)\<rparr>;
          cp = cp\<lparr>Block := TrimSpace (Block cp)\<rparr>;
          cp = cp\<lparr>Script := TrimSpace (Script cp)\<rparr>;
          cp = (if BidiMirroringGlyph cp = ''#'' then cp\<lparr>BidiMirroringGlyph := ''''\<rparr> else cp);
          cp = (if DecompositionMapping cp = ''#'' then cp\<lparr>DecompositionMapping := ''''\<rparr> else cp);
          cp = (if SimpleUppercase cp = ''#'' then cp\<lparr>SimpleUppercase := ''''\<rparr> else cp);
          cp = (if SimpleLowercase cp = ''#'' then cp\<lparr>SimpleLowercase := ''''\<rparr> else cp);
          cp = (if SimpleTitlecase cp = ''#'' then cp\<lparr>SimpleTitlecase := ''''\<rparr> else cp);
          cp = (if UppercaseMapping cp = ''#'' then cp\<lparr>UppercaseMapping := ''''\<rparr> else cp);
          cp = (if LowercaseMapping cp = ''#'' then cp\<lparr>LowercaseMapping := ''''\<rparr> else cp);
          cp = (if TitlecaseMapping cp = ''#'' then cp\<lparr>TitlecaseMapping := ''''\<rparr> else cp);
          cp = (if SimpleCaseFolding cp = ''#'' then cp\<lparr>SimpleCaseFolding := ''''\<rparr> else cp);
          cp = (if CaseFolding cp = ''#'' then cp\<lparr>CaseFolding := ''''\<rparr> else cp)
      in cp)"

section \<open>The validate-and-normalize stage (parser.go)\<close>

text \<open>
  The loop of \<open>ProcessUCDForMongoDB\<close> over the extracted code points: an invalid record
  is skipped (\<open>continue\<close>), a valid one is normalized and appended to
  \<open>validCodePoints\<close>. The function returns the valid code points, the blocks and a
  nil error. What the functions print is not modelled.
\<close>

fun processLoop :: "CodePoint list \<Rightarrow> CodePoint list \<Rightarrow> CodePoint list" where
  "processLoop validCodePoints [] = validCodePoints"
| "processLoop validCodePoints (cp # rest) =
     (case ValidateCodePoint cp of
        Some err \<Rightarrow> processLoop validCodePoints rest
      | None \<Rightarrow> processLoop (validCodePoints @ [NormalizeCodePoint cp]) rest)"

definition ProcessUCDForMongoDB ::
  "UCD \<Rightarrow> CodePoint list \<times> Block list \<times> validation_error option" where
  "ProcessUCDForMongoDB ucd =
     (let codePoints = ExtractAllCodePoints ucd;
          validCodePoints = processLoop [] codePoints;
          blocks = ExtractBlocks ucd
      in (validCodePoints, blocks, None))"

section \<open>The document store (mongo.go)\<close>

text \<open>
  The three collections behind the handles \<open>mc.ucd\<close>, \<open>mc.CodePoints\<close> and
  \<open>mc.blocks\<close> are modelled by their contents, in insertion order. The driver is not
  part of the program: whether a call succeeds is an input of the model. A failed
  \<open>Drop\<close>, \<open>DeleteMany\<close> or \<open>InsertOne\<close> leaves the collection as it was; a failed
  \<open>InsertMany\<close> (an ordered insert) may have written the first \<open>n\<close> documents of its
  batch.
\<close>

record MongoClient =
  ucdColl :: "UCD list"
  codePointsColl :: "CodePoint list"
  blocksColl :: "Block list"

datatype driver_error = ErrNoDocuments | DriverError string

datatype insert_outcome = InsertOK | InsertFailed nat driver_error

text \<open>
  The errors the functions of \<open>mongo.go\<close> and \<open>main\<close> report, one constructor for each
  message; the positional range of a failed batch is part of its error.
\<close>

datatype db_error =
    ErrProcess validation_error
  | ErrConnect string
  | ErrCreateIndexes string
  | ErrClearUCD driver_error
  | ErrSaveUCD driver_error
  | ErrClearCodePoints driver_error
  | ErrInsertCodePointsBatch nat nat driver_error
  | ErrClearBlocks driver_error
  | ErrInsertBlocks driver_error
  | ErrFindCodePoint string driver_error

definition Drop :: "driver_error option \<Rightarrow> 'a list \<Rightarrow> driver_error option \<times> 'a list" where
  "Drop outcome coll = (case outcome of None \<Rightarrow> (None, []) | Some e \<Rightarrow> (Some e, coll))"

definition DeleteMany :: "driver_error option \<Rightarrow> 'a list \<Rightarrow> driver_error option \<times> 'a list" where
  "DeleteMany outcome coll = (case outcome of None \<Rightarrow> (None, []) | Some e \<Rightarrow> (Some e, coll))"

definition InsertMany :: "insert_outcome \<Rightarrow> 'a list \<Rightarrow> 'a list \<Rightarrow> driver_error option \<times> 'a list" where
  "InsertMany outcome coll docs =
     (case outcome of
        InsertOK \<Rightarrow> (None, coll @ docs)
      | InsertFailed n e \<Rightarrow> (Some e, coll @ take n docs))"

subsection \<open>SaveUCD\<close>

text \<open>
  What the driver and the clock answer during one call of \<open>SaveUCD\<close>: the two readings
  of \<open>time.Now()\<close>, the outcome of \<open>Drop\<close>, and the outcome of \<open>InsertOne\<close>, which on
  success is the identity the driver gave the document (its \<open>_id\<close> is omitted when
  zero). The fields tagged \<open>bson:"-"\<close> are not written.
\<close>

record UCDCalls =
  ucdNow1 :: Time
  ucdNow2 :: Time
  ucdDrop :: "driver_error option"
  ucdInsertOne :: "driver_error + ObjectID"

definition SaveUCD :: "UCDCalls \<Rightarrow> UCD \<Rightarrow> MongoClient \<Rightarrow> db_error option \<times> MongoClient" where
  "SaveUCD env ucd mc =
     (let ucdMetadata = \<lparr>UCD.ID = NilObjectID, Xmlns = Xmlns ucd, Description = Description ucd,
                           Repertoire = None, Blocks = None,
                           CreatedAt = ucdNow1 env, UpdatedAt = ucdNow2 env,
                           Version = Version ucd\<rparr>
      in case Drop (ucdDrop env) (ucdColl mc) of
           (Some e, coll) \<Rightarrow> (Some (ErrClearUCD e), mc\<lparr>ucdColl := coll\<rparr>)
         | (None, coll) \<Rightarrow>
             (case ucdInsertOne env of
                Inl e \<Rightarrow> (Some (ErrSaveUCD e), mc\<lparr>ucdColl := coll\<rparr>)
              | Inr insertedID \<Rightarrow>
                  (None, mc\<lparr>ucdColl := coll @ [ucdMetadata\<lparr>UCD.ID := insertedID, Xmlns := ''''\<rparr>]\<rparr>)))"

subsection \<open>SaveCodePoints\<close>

text \<open>
  What the driver, the clock and \<open>primitive.NewObjectID\<close> answer during one call of
  \<open>SaveCodePoints\<close>: \<open>cpNewObjectID i\<close> is the identity made for the record at index
  \<open>i\<close>, \<open>cpInsertMany i\<close> the outcome of inserting the batch that starts at index \<open>i\<close>.
\<close>

record CodePointCalls =
  cpDeleteMany :: "driver_error option"
  cpNow :: Time
  cpNewObjectID :: "nat \<Rightarrow> ObjectID"
  cpInsertMany :: "nat \<Rightarrow> insert_outcome"

definition batchSize :: nat where
  "batchSize = 1000"

text \<open>The loop that stamps \<open>codePoints[i]\<close> and copies it to \<open>documents[i]\<close>, from index \<open>i\<close> on.\<close>

fun stampCodePoints :: "(nat \<Rightarrow> ObjectID) \<Rightarrow> Time \<Rightarrow> nat \<Rightarrow> CodePoint list \<Rightarrow> CodePoint list" where
  "stampCodePoints newObjectID now i [] = []"
| "stampCodePoints newObjectID now i (cp # rest) =
     cp\<lparr>CodePoint.ID := newObjectID i, CodePoint.CreatedAt := now, CodePoint.UpdatedAt := now\<rparr>
       # stampCodePoints newObjectID now (Suc i) rest"

text \<open>
  The batch loop \<open>for i := 0; i < len(documents); i += batchSize\<close>; the slice
  \<open>documents[i:end]\<close> is \<open>take (end - i) (drop i documents)\<close>. Indices are natural
  numbers: a Go \<open>int\<close> has 64 bits and \<open>i + batchSize\<close> stays below \<open>len(documents) + 1000\<close>.
\<close>

function insertBatches ::
  "(nat \<Rightarrow> insert_outcome) \<Rightarrow> CodePoint list \<Rightarrow> nat \<Rightarrow> CodePoint list
     \<Rightarrow> db_error option \<times> CodePoint list" where
  "insertBatches insertMany documents i coll =
     (if i < length documents then
        (let end = (if i + batchSize > length documents then length documents else i + batchSize);
             batch = take (end - i) (drop i documents)
         in case InsertMany (insertMany i) coll batch of
              (Some e, coll') \<Rightarrow> (Some (ErrInsertCodePointsBatch i end e), coll')
            | (None, coll') \<Rightarrow> insertBatches insertMany documents (i + batchSize) coll')
      else (None, coll))"
  by pat_completeness auto
termination
  by (relation "measure (\<lambda>(insertMany, documents, i, coll). length documents - i)")
    (auto simp: batchSize_def)

declare insertBatches.simps [simp del]

definition SaveCodePoints ::
  "CodePointCalls \<Rightarrow> CodePoint list \<Rightarrow> MongoClient \<Rightarrow> db_error option \<times> MongoClient" where
  "SaveCodePoints env codePoints mc =
     (if length codePoints = 0 then (None, mc)
      else
        (case DeleteMany (cpDeleteMany env) (codePointsColl mc) of
           (Some e, coll) \<Rightarrow> (Some (ErrClearCodePoints e), mc\<lparr>codePointsColl := coll\<rparr>)
         | (None, coll) \<Rightarrow>
             (let now = cpNow env;
                  documents = stampCodePoints (cpNewObjectID env) now 0 codePoints;
                  (err, coll') = insertBatches (cpInsertMany env) documents 0 coll
              in (err, mc\<lparr>codePointsColl := coll'\<rparr>))))"

subsection \<open>SaveBlocks\<close>

record BlockCalls =
  blkDeleteMany :: "driver_error option"
  blkNow :: Time
  blkNewObjectID :: "nat \<Rightarrow> ObjectID"
  blkInsertMany :: insert_outcome

fun stampBlocks :: "(nat \<Rightarrow> ObjectID) \<Rightarrow> Time \<Rightarrow> nat \<Rightarrow> Block list \<Rightarrow> Block list" where
  "stampBlocks newObjectID now i [] = []"
| "stampBlocks newObjectID now i (b # rest) =
     b\<lparr>Block.ID := newObjectID i, Block.CreatedAt := now, Block.UpdatedAt := now\<rparr>
       # stampBlocks newObjectID now (Suc i) rest"

definition SaveBlocks ::
  "BlockCalls \<Rightarrow> Block list \<Rightarrow> MongoClient \<Rightarrow> db_error option \<times> MongoClient" where
  "SaveBlocks env blocks mc =
     (if length blocks = 0 then (None, mc)
      else
        (case DeleteMany (blkDeleteMany env) (blocksColl mc) of
           (Some e, coll) \<Rightarrow> (Some (ErrClearBlocks e), mc\<lparr>blocksColl := coll\<rparr>)
         | (None, coll) \<Rightarrow>
             (let now = blkNow env;
                  documents = stampBlocks (blkNewObjectID env) now 0 blocks
              in case InsertMany (blkInsertMany env) coll documents of
                   (Some e, coll') \<Rightarrow> (Some (ErrInsertBlocks e), mc\<lparr>blocksColl := coll'\<rparr>)
                 | (None, coll') \<Rightarrow> (None, mc\<lparr>blocksColl := coll'\<rparr>))))"

subsection \<open>GetCodePointByCP\<close>

text \<open>
  \<open>FindOne\<close> with the filter \<open>{"cp": cp}\<close>, decoded: a failure of the store (its message
  is an input), else the first document whose \<open>cp\<close> equals the argument, else
  \<open>mongo.ErrNoDocuments\<close>.
\<close>

definition FindOneByCP :: "string option \<Rightarrow> CodePoint list \<Rightarrow> string \<Rightarrow> driver_error + CodePoint" where
  "FindOneByCP failure coll cp =
     (case failure of
        Some msg \<Rightarrow> Inl (DriverError msg)
      | None \<Rightarrow>
          (case List.find (\<lambda>d. CP d = cp) coll of
             None \<Rightarrow> Inl ErrNoDocuments
           | Some d \<Rightarrow> Inr d))"

definition GetCodePointByCP ::
  "string option \<Rightarrow> string \<Rightarrow> MongoClient \<Rightarrow> CodePoint option \<times> db_error option" where
  "GetCodePointByCP failure cp mc =
     (case FindOneByCP failure (codePointsColl mc) cp of
        Inl err \<Rightarrow>
          (if err = ErrNoDocuments then (None, None)
           else (None, Some (ErrFindCodePoint cp err)))
      | Inr codePoint \<Rightarrow> (Some codePoint, None))"

section \<open>The run (main.go)\<close>

text \<open>
  \<open>main\<close> from the processing step on; the decoded \<open>UCD\<close> is its input. Connecting and
  \<open>CreateIndexes\<close> (which only drops and creates index definitions) touch no
  document: their outcome is an input, and a failure ends the run before any save. The
  statistics printed after the saves only read the store. The result is the error that
  ended the run, if any, and the store it leaves.
\<close>

record Env =
  connectFailure :: "string option"
  createIndexesFailure :: "string option"
  ucdCalls :: UCDCalls
  cpCalls :: CodePointCalls
  blkCalls :: BlockCalls

definition main :: "Env \<Rightarrow> UCD \<Rightarrow> MongoClient \<Rightarrow> db_error option \<times> MongoClient" where
  "main env ucd mc =
     (case ProcessUCDForMongoDB ucd of
        (codePoints, blocks, Some err) \<Rightarrow> (Some (ErrProcess err), mc)
      | (codePoints, blocks, None) \<Rightarrow>
     (case connectFailure env of
        Some msg \<Rightarrow> (Some (ErrConnect msg), mc)
      | None \<Rightarrow>
     (case createIndexesFailure env of
        Some msg \<Rightarrow> (Some (ErrCreateIndexes msg), mc)
      | None \<Rightarrow>
     (case SaveUCD (ucdCalls env) (ucd\<lparr>Version := ''16.0.0''\<rparr>) mc of
        (Some e, mc1) \<Rightarrow> (Some e, mc1)
      | (None, mc1) \<Rightarrow>
     (case SaveCodePoints (cpCalls env) codePoints mc1 of
        (Some e, mc2) \<Rightarrow> (Some e, mc2)
      | (None, mc2) \<Rightarrow> SaveBlocks (blkCalls env) blocks mc2)))))"

section \<open>Auxiliary definitions for the statements\<close>

text \<open>What one \<open>if cp.X == "#" { cp.X = "" }\<close> of \<open>NormalizeCodePoint\<close> does to the field.\<close>

definition hashToEmpty :: "string \<Rightarrow> string" where
  "hashToEmpty s = (if s = ''#'' then '''' else s)"

text \<open>The zero value of \<open>UCD\<close>, and a repertoire with one record in each of its slices.\<close>

definition zeroUCD :: UCD where
  "zeroUCD = \<lparr>UCD.ID = NilObjectID, Xmlns = '''', Description = '''', Repertoire = None,
     Blocks = None, CreatedAt = zeroTime, UpdatedAt = zeroTime, Version = ''''\<rparr>"

definition exRepertoire :: Repertoire where
  "exRepertoire =
     \<lparr>Reserved = [zeroCodePoint\<lparr>CodePoint.FirstCP := ''0378'', CodePoint.LastCP := ''0379''\<rparr>],
      Noncharacter = [zeroCodePoint\<lparr>CodePoint.FirstCP := ''FDD0'', CodePoint.LastCP := ''FDEF''\<rparr>],
      Surrogate = [zeroCodePoint\<lparr>CodePoint.FirstCP := ''D800'', CodePoint.LastCP := ''DFFF''\<rparr>],
      CodePoints = [zeroCodePoint\<lparr>CP := ''0149'', Deprecated := True\<rparr>]\<rparr>"

text \<open>
  The documents of the store without what a save assigns afresh: identities and time
  stamps.
\<close>

definition unstampUCD :: "UCD \<Rightarrow> UCD" where
  "unstampUCD u = u\<lparr>UCD.ID := NilObjectID, UCD.CreatedAt := zeroTime, UCD.UpdatedAt := zeroTime\<rparr>"

definition unstampCodePoint :: "CodePoint \<Rightarrow> CodePoint" where
  "unstampCodePoint cp =
     cp\<lparr>CodePoint.ID := NilObjectID, CodePoint.CreatedAt := zeroTime,
        CodePoint.UpdatedAt := zeroTime\<rparr>"

definition unstampBlock :: "Block \<Rightarrow> Block" where
  "unstampBlock b =
     b\<lparr>Block.ID := NilObjectID, Block.CreatedAt := zeroTime, Block.UpdatedAt := zeroTime\<rparr>"

definition contents :: "MongoClient \<Rightarrow> UCD list \<times> CodePoint list \<times> Block list" where
  "contents mc =
     (map unstampUCD (ucdColl mc), map unstampCodePoint (codePointsColl mc),
      map unstampBlock (blocksColl mc))"

text \<open>A store, the answers of the driver and inputs for the examples.\<close>

definition exStore :: MongoClient where
  "exStore =
     \<lparr>ucdColl = [zeroUCD\<lparr>UCD.ID := 7, Version := ''15.1.0''\<rparr>],
      codePointsColl = [zeroCodePoint\<lparr>CodePoint.ID := 8, CP := ''0042''\<rparr>],
      blocksColl = []\<rparr>"

definition exCalls :: CodePointCalls where
  "exCalls = \<lparr>cpDeleteMany = None, cpNow = 1700000000, cpNewObjectID = (\<lambda>i. 100 + i),
     cpInsertMany = (\<lambda>i. InsertOK)\<rparr>"

definition exCodePoints :: "CodePoint list" where
  "exCodePoints = replicate 1500 (zeroCodePoint\<lparr>CP := ''0041''\<rparr>)"

definition exUCD :: UCD where
  "exUCD =
     zeroUCD\<lparr>Description := ''Unicode 16.0.0'',
       Repertoire := Some
         \<lparr>Reserved = [zeroCodePoint\<lparr>CodePoint.FirstCP := ''0378'', CodePoint.LastCP := ''0379''\<rparr>],
          Noncharacter = [], Surrogate = [],
          CodePoints = [zeroCodePoint\<lparr>CP := ''0041'', CodePoint.Name := ''LATIN CAPITAL LETTER A''\<rparr>]\<rparr>,
       Blocks := Some \<lparr>Blocks.Blocks =
         [\<lparr>Block.ID = NilObjectID, Block.FirstCP = ''0000'', Block.LastCP = ''007F'',
           Block.Name = ''ASCII'', Block.CreatedAt = zeroTime, Block.UpdatedAt = zeroTime\<rparr>]\<rparr>\<rparr>"

definition exEnv :: "Time \<Rightarrow> ObjectID \<Rightarrow> Env" where
  "exEnv now firstID =
     \<lparr>connectFailure = None, createIndexesFailure = None,
      ucdCalls = \<lparr>ucdNow1 = now, ucdNow2 = now + 1, ucdDrop = None, ucdInsertOne = Inr firstID\<rparr>,
      cpCalls = \<lparr>cpDeleteMany = None, cpNow = now + 2, cpNewObjectID = (\<lambda>i. firstID + 1 + i),
                 cpInsertMany = (\<lambda>i. InsertOK)\<rparr>,
      blkCalls = \<lparr>blkDeleteMany = None, blkNow = now + 3, blkNewObjectID = (\<lambda>i. firstID + 1000 + i),
                  blkInsertMany = InsertOK\<rparr>\<rparr>"

section \<open>Properties of flattening, validation and normalization\<close>

lemma appendReserved_eq:
  "appendReserved acc xs = acc @ map (\<lambda>cp. cp\<lparr>Deprecated := True\<rparr>) xs"
  by (induction xs arbitrary: acc) simp_all

lemma appendNoncharacter_eq:
  "appendNoncharacter acc xs = acc @ map (\<lambda>cp. cp\<lparr>CodePoint.Noncharacter := True\<rparr>) xs"
  by (induction xs arbitrary: acc) simp_all

lemma getCodePointsFromRepertoire_Some:
  "getCodePointsFromRepertoire (Some r) =
     CodePoints r @ map (\<lambda>cp. cp\<lparr>Deprecated := True\<rparr>) (Reserved r)
       @ map (\<lambda>cp. cp\<lparr>CodePoint.Noncharacter := True\<rparr>) (Repertoire.Noncharacter r)
       @ Surrogate r"
  by (simp add: getCodePointsFromRepertoire_def appendReserved_eq appendNoncharacter_eq)

lemma hashToEmpty_idem: "hashToEmpty (hashToEmpty s) = hashToEmpty s"
  by (simp add: hashToEmpty_def)

lemma if_BidiMirroringGlyph:
  "(if BidiMirroringGlyph cp = ''#'' then cp\<lparr>BidiMirroringGlyph := ''''\<rparr> else cp) =
     cp\<lparr>BidiMirroringGlyph := hashToEmpty (BidiMirroringGlyph cp)\<rparr>"
  by (simp add: hashToEmpty_def)

lemma if_DecompositionMapping:
  "(if DecompositionMapping cp = ''#'' then cp\<lparr>DecompositionMapping := ''''\<rparr> else cp) =
     cp\<lparr>DecompositionMapping := hashToEmpty (DecompositionMapping cp)\<rparr>"
  by (simp add: hashToEmpty_def)

lemma if_SimpleUppercase:
  "(if SimpleUppercase cp = ''#'' then cp\<lparr>SimpleUppercase := ''''\<rparr> else cp) =
     cp\<lparr>SimpleUppercase := hashToEmpty (SimpleUppercase cp)\<rparr>"
  by (simp add: hashToEmpty_def)

lemma if_SimpleLowercase:
  "(if SimpleLowercase cp = ''#'' then cp\<lparr>SimpleLowercase := ''''\<rparr> else cp) =
     cp\<lparr>SimpleLowercase := hashToEmpty (SimpleLowercase cp)\<rparr>"
  by (simp add: hashToEmpty_def)

lemma if_SimpleTitlecase:
  "(if SimpleTitlecase cp = ''#'' then cp\<lparr>SimpleTitlecase := ''''\<rparr> else cp) =
     cp\<lparr>SimpleTitlecase := hashToEmpty (SimpleTitlecase cp)\<rparr>"
  by (simp add: hashToEmpty_def)

lemma if_UppercaseMapping:
  "(if UppercaseMapping cp = ''#'' then cp\<lparr>UppercaseMapping := ''''\<rparr> else cp) =
     cp\<lparr>UppercaseMapping := hashToEmpty (UppercaseMapping cp)\<rparr>"
  by (simp add: hashToEmpty_def)

lemma if_LowercaseMapping:
  "(if LowercaseMapping cp = ''#'' then cp\<lparr>LowercaseMapping := ''''\<rparr> else cp) =
     cp\<lparr>LowercaseMapping := hashToEmpty (LowercaseMapping cp)\<rparr>"
  by (simp add: hashToEmpty_def)

lemma if_TitlecaseMapping:
  "(if TitlecaseMapping cp = ''#'' then cp\<lparr>TitlecaseMapping := ''''\<rparr> else cp) =
     cp\<lparr>TitlecaseMapping := hashToEmpty (TitlecaseMapping cp)\<rparr>"
  by (simp add: hashToEmpty_def)

lemma if_SimpleCaseFolding:
  "(if SimpleCaseFolding cp = ''#'' then cp\<lparr>SimpleCaseFolding := ''''\<rparr> else cp) =
     cp\<lparr>SimpleCaseFolding := hashToEmpty (SimpleCaseFolding cp)\<rparr>"
  by (simp add: hashToEmpty_def)

lemma if_CaseFolding:
  "(if CaseFolding cp = ''#'' then cp\<lparr>CaseFolding := ''''\<rparr> else cp) =
     cp\<lparr>CaseFolding := hashToEmpty (CaseFolding cp)\<rparr>"
  by (simp add: hashToEmpty_def)

lemmas hash_steps = if_BidiMirroringGlyph if_DecompositionMapping if_SimpleUppercase
  if_SimpleLowercase if_SimpleTitlecase if_UppercaseMapping if_LowercaseMapping
  if_TitlecaseMapping if_SimpleCaseFolding if_CaseFolding

lemma NormalizeCodePoint_updates:
  "NormalizeCodePoint cp =
     cp\<lparr>CodePoint.Name := TrimSpace (CodePoint.Name cp),
        Name1 := TrimSpace (Name1 cp),
        Block := TrimSpace (Block cp),
        Script := TrimSpace (Script cp),
        BidiMirroringGlyph := hashToEmpty (BidiMirroringGlyph cp),
        DecompositionMapping := hashToEmpty (DecompositionMapping cp),
        SimpleUppercase := hashToEmpty (SimpleUppercase cp),
        SimpleLowercase := hashToEmpty (SimpleLowercase cp),
        SimpleTitlecase := hashToEmpty (SimpleTitlecase cp),
        UppercaseMapping := hashToEmpty (UppercaseMapping cp),
        LowercaseMapping := hashToEmpty (LowercaseMapping cp),
        TitlecaseMapping := hashToEmpty (TitlecaseMapping cp),
        SimpleCaseFolding := hashToEmpty (SimpleCaseFolding cp),
        CaseFolding := hashToEmpty (CaseFolding cp)\<rparr>"
  unfolding NormalizeCodePoint_def Let_def hash_steps
  by simp

lemma spaceEncodings_nonempty: "p \<in> set spaceEncodings \<Longrightarrow> p \<noteq> []"
  by (auto simp: spaceEncodings_def)

lemma leadingSpace_0_iff:
  "leadingSpace s = 0 \<longleftrightarrow> (\<forall>p\<in>set spaceEncodings. \<not> prefix p s)"
  by (auto simp: leadingSpace_def find_None_iff find_Some_iff spaceEncodings_nonempty
      split: option.splits)

lemma trailingSpace_0_iff:
  "trailingSpace s = 0 \<longleftrightarrow> (\<forall>p\<in>set spaceEncodings. \<not> suffix p s)"
  by (auto simp: trailingSpace_def find_None_iff find_Some_iff spaceEncodings_nonempty
      split: option.splits)

lemma leadingSpace_trimLeftSpace: "leadingSpace (trimLeftSpace s) = 0"
  by (induction s rule: trimLeftSpace.induct) (subst trimLeftSpace.simps, simp)

lemma trailingSpace_trimRightSpace: "trailingSpace (trimRightSpace s) = 0"
  by (induction s rule: trimRightSpace.induct) (subst trimRightSpace.simps, simp)

lemma prefix_trimRightSpace: "prefix (trimRightSpace s) s"
proof (induction s rule: trimRightSpace.induct)
  case (1 s)
  show ?case
  proof (cases "trailingSpace s = 0")
    case True
    then show ?thesis by (subst trimRightSpace.simps) simp
  next
    case False
    have "prefix (trimRightSpace (take (length s - trailingSpace s) s))
            (take (length s - trailingSpace s) s)"
      using "1.IH" False by simp
    moreover have "prefix (take (length s - trailingSpace s) s) s"
      by (rule take_is_prefix)
    ultimately have "prefix (trimRightSpace (take (length s - trailingSpace s) s)) s"
      by (rule prefix_order.trans)
    then show ?thesis using False by (subst trimRightSpace.simps) simp
  qed
qed

lemma leadingSpace_trimRightSpace:
  assumes "leadingSpace s = 0"
  shows "leadingSpace (trimRightSpace s) = 0"
proof -
  have "\<not> prefix p (trimRightSpace s)" if "p \<in> set spaceEncodings" for p
  proof
    assume "prefix p (trimRightSpace s)"
    then have "prefix p s"
      using prefix_trimRightSpace prefix_order.trans by blast
    with assms that show False by (simp add: leadingSpace_0_iff)
  qed
  then show ?thesis by (simp add: leadingSpace_0_iff)
qed

lemma TrimSpace_idem: "TrimSpace (TrimSpace s) = TrimSpace s"
proof -
  let ?t = "TrimSpace s"
  have l: "leadingSpace ?t = 0"
    unfolding TrimSpace_def
    by (rule leadingSpace_trimRightSpace) (rule leadingSpace_trimLeftSpace)
  have r: "trailingSpace ?t = 0"
    unfolding TrimSpace_def by (rule trailingSpace_trimRightSpace)
  have "trimLeftSpace ?t = ?t" using l by (subst trimLeftSpace.simps) simp
  moreover have "trimRightSpace ?t = ?t" using r by (subst trimRightSpace.simps) simp
  ultimately show ?thesis by (simp add: TrimSpace_def)
qed

lemma processLoop_eq:
  "processLoop acc xs =
     acc @ map NormalizeCodePoint (filter (\<lambda>cp. ValidateCodePoint cp = None) xs)"
  by (induction xs arbitrary: acc) (auto split: option.splits)

lemma NormalizeCodePoint_identity:
  "CP (NormalizeCodePoint cp) = CP cp"
  "CodePoint.FirstCP (NormalizeCodePoint cp) = CodePoint.FirstCP cp"
  "CodePoint.LastCP (NormalizeCodePoint cp) = CodePoint.LastCP cp"
  by (simp_all add: NormalizeCodePoint_updates)

lemma ValidateCodePoint_None_iff:
  "ValidateCodePoint cp = None \<longleftrightarrow>
     (CP cp \<noteq> '''' \<or> CodePoint.FirstCP cp \<noteq> '''') \<and>
     (CodePoint.FirstCP cp \<noteq> '''' \<longrightarrow> CodePoint.LastCP cp \<noteq> '''')"
  by (auto simp: ValidateCodePoint_def)

lemma ProcessUCDForMongoDB_eq:
  "ProcessUCDForMongoDB ucd =
     (map NormalizeCodePoint (filter (\<lambda>cp. ValidateCodePoint cp = None) (ExtractAllCodePoints ucd)),
      ExtractBlocks ucd, None)"
  by (simp add: ProcessUCDForMongoDB_def processLoop_eq)

text \<open>
  Claim C3. \<open>ValidateCodePoint\<close> rejects a record if and only if it has neither a single
  code value nor a range start (the first check, error \<open>ErrNoCP\<close>), or it has a range
  start without a range end (the second check, error \<open>ErrNoLastCP\<close>). In particular,
  a record with no range start is accepted exactly when its single code value is not
  empty.
\<close>
theorem ValidateCodePoint_rejects_iff:
  "(ValidateCodePoint cp \<noteq> None \<longleftrightarrow>
      (CP cp = '''' \<and> CodePoint.FirstCP cp = '''') \<or>
      (CodePoint.FirstCP cp \<noteq> '''' \<and> CodePoint.LastCP cp = '''')) \<and>
   (ValidateCodePoint cp = Some ErrNoCP \<longleftrightarrow> CP cp = '''' \<and> CodePoint.FirstCP cp = '''') \<and>
   (ValidateCodePoint cp = Some ErrNoLastCP \<longleftrightarrow>
      CodePoint.FirstCP cp \<noteq> '''' \<and> CodePoint.LastCP cp = '''') \<and>
   (CodePoint.FirstCP cp = '''' \<longrightarrow> (ValidateCodePoint cp = None \<longleftrightarrow> CP cp \<noteq> ''''))"
  by (auto simp: ValidateCodePoint_def)

theorem ValidateCodePoint_rejects_iff_witness:
  "CodePoint.FirstCP (zeroCodePoint\<lparr>CP := ''0041''\<rparr>) = '''' \<and>
   ValidateCodePoint (zeroCodePoint\<lparr>CP := ''0041''\<rparr>) = None \<and>
   ValidateCodePoint zeroCodePoint = Some ErrNoCP \<and>
   ValidateCodePoint (zeroCodePoint\<lparr>CodePoint.FirstCP := ''0378''\<rparr>) = Some ErrNoLastCP"
  using ValidateCodePoint_rejects_iff [of "zeroCodePoint\<lparr>CP := ''0041''\<rparr>"]
    ValidateCodePoint_rejects_iff [of zeroCodePoint]
    ValidateCodePoint_rejects_iff [of "zeroCodePoint\<lparr>CodePoint.FirstCP := ''0378''\<rparr>"]
  by (simp add: zeroCodePoint_def)

text \<open>
  Claim C1, as stated, fails: a record that carries a single code value and a complete
  range passes \<open>ValidateCodePoint\<close> and is part of the output of
  \<open>ProcessUCDForMongoDB\<close>, with all three fields populated.
\<close>
theorem accepted_identity_counterexample:
  "ValidateCodePoint
     (zeroCodePoint\<lparr>CP := ''0041'', CodePoint.FirstCP := ''0378'', CodePoint.LastCP := ''0379''\<rparr>) = None \<and>
   fst (ProcessUCDForMongoDB
     (zeroUCD\<lparr>Repertoire := Some \<lparr>Reserved = [], Noncharacter = [], Surrogate = [],
        CodePoints = [zeroCodePoint\<lparr>CP := ''0041'', CodePoint.FirstCP := ''0378'',
                        CodePoint.LastCP := ''0379''\<rparr>]\<rparr>\<rparr>)) =
     [zeroCodePoint\<lparr>CP := ''0041'', CodePoint.FirstCP := ''0378'', CodePoint.LastCP := ''0379''\<rparr>] \<and>
   CP (zeroCodePoint\<lparr>CP := ''0041'', CodePoint.FirstCP := ''0378'', CodePoint.LastCP := ''0379''\<rparr>) \<noteq> '''' \<and>
   CodePoint.FirstCP (zeroCodePoint\<lparr>CP := ''0041'', CodePoint.FirstCP := ''0378'', CodePoint.LastCP := ''0379''\<rparr>) \<noteq> '''' \<and>
   CodePoint.LastCP (zeroCodePoint\<lparr>CP := ''0041'', CodePoint.FirstCP := ''0378'', CodePoint.LastCP := ''0379''\<rparr>) \<noteq> ''''"
  by code_simp

text \<open>
  Claim C1, amended. Every record that passes \<open>ValidateCodePoint\<close>, and every record in
  the output of \<open>ProcessUCDForMongoDB\<close>, has a single code value or a range start
  (never neither), and whenever its range start is set its range end is set as well.
\<close>
theorem accepted_identity:
  "(ValidateCodePoint cp = None \<longrightarrow>
      (CP cp \<noteq> '''' \<or> CodePoint.FirstCP cp \<noteq> '''') \<and>
      (CodePoint.FirstCP cp \<noteq> '''' \<longrightarrow> CodePoint.LastCP cp \<noteq> '''')) \<and>
   (cp \<in> set (fst (ProcessUCDForMongoDB ucd)) \<longrightarrow>
      (CP cp \<noteq> '''' \<or> CodePoint.FirstCP cp \<noteq> '''') \<and>
      (CodePoint.FirstCP cp \<noteq> '''' \<longrightarrow> CodePoint.LastCP cp \<noteq> ''''))"
proof (intro conjI impI)
  assume "cp \<in> set (fst (ProcessUCDForMongoDB ucd))"
  then obtain c where c: "ValidateCodePoint c = None" and cp: "cp = NormalizeCodePoint c"
    by (auto simp: ProcessUCDForMongoDB_eq)
  from c have "(CP c \<noteq> '''' \<or> CodePoint.FirstCP c \<noteq> '''') \<and>
      (CodePoint.FirstCP c \<noteq> '''' \<longrightarrow> CodePoint.LastCP c \<noteq> '''')"
    by (simp add: ValidateCodePoint_None_iff)
  then show "CP cp \<noteq> '''' \<or> CodePoint.FirstCP cp \<noteq> ''''"
    and "CodePoint.FirstCP cp \<noteq> '''' \<Longrightarrow> CodePoint.LastCP cp \<noteq> ''''"
    by (auto simp: cp NormalizeCodePoint_identity)
qed (auto simp: ValidateCodePoint_None_iff)

lemma ex_process:
  "fst (ProcessUCDForMongoDB
     (zeroUCD\<lparr>Repertoire := Some \<lparr>Reserved = [zeroCodePoint\<lparr>CodePoint.FirstCP := ''0378'', CodePoint.LastCP := ''0379''\<rparr>],
        Noncharacter = [], Surrogate = [],
        CodePoints = [zeroCodePoint\<lparr>CP := ''0041''\<rparr>]\<rparr>\<rparr>)) =
   [zeroCodePoint\<lparr>CP := ''0041''\<rparr>,
    zeroCodePoint\<lparr>CodePoint.FirstCP := ''0378'', CodePoint.LastCP := ''0379'', Deprecated := True\<rparr>]"
  by code_simp

theorem accepted_identity_witness:
  "ValidateCodePoint (zeroCodePoint\<lparr>CodePoint.FirstCP := ''0378'', CodePoint.LastCP := ''0379'', Deprecated := True\<rparr>) = None \<and>
   zeroCodePoint\<lparr>CodePoint.FirstCP := ''0378'', CodePoint.LastCP := ''0379'', Deprecated := True\<rparr>
     \<in> set (fst (ProcessUCDForMongoDB
     (zeroUCD\<lparr>Repertoire := Some \<lparr>Reserved = [zeroCodePoint\<lparr>CodePoint.FirstCP := ''0378'', CodePoint.LastCP := ''0379''\<rparr>],
        Noncharacter = [], Surrogate = [],
        CodePoints = [zeroCodePoint\<lparr>CP := ''0041''\<rparr>]\<rparr>\<rparr>))) \<and>
   CodePoint.FirstCP (zeroCodePoint\<lparr>CodePoint.FirstCP := ''0378'', CodePoint.LastCP := ''0379'', Deprecated := True\<rparr>) \<noteq> '''' \<and>
   CodePoint.LastCP (zeroCodePoint\<lparr>CodePoint.FirstCP := ''0378'', CodePoint.LastCP := ''0379'', Deprecated := True\<rparr>) \<noteq> ''''"
proof -
  let ?cp = "zeroCodePoint\<lparr>CodePoint.FirstCP := ''0378'', CodePoint.LastCP := ''0379'', Deprecated := True\<rparr>"
  let ?ucd = "zeroUCD\<lparr>Repertoire := Some \<lparr>Reserved = [zeroCodePoint\<lparr>CodePoint.FirstCP := ''0378'', CodePoint.LastCP := ''0379''\<rparr>],
        Noncharacter = [], Surrogate = [],
        CodePoints = [zeroCodePoint\<lparr>CP := ''0041''\<rparr>]\<rparr>\<rparr>"
  have v: "ValidateCodePoint ?cp = None" by code_simp
  have m: "?cp \<in> set (fst (ProcessUCDForMongoDB ?ucd))"
    by (simp add: ex_process)
  show ?thesis
    using v m accepted_identity [of ?cp ?ucd] by simp
qed

text \<open>
  Claim C6. The flattened sequence is the concatenation of the four slices in the order
  normal, reserved, noncharacter, surrogate, each in its own order (the reserved and the
  noncharacter records carrying their flag); its length is the sum of the four lengths.
\<close>
theorem flatten_concat:
  "getCodePointsFromRepertoire (Some r) =
     CodePoints r @ map (\<lambda>cp. cp\<lparr>Deprecated := True\<rparr>) (Reserved r)
       @ map (\<lambda>cp. cp\<lparr>CodePoint.Noncharacter := True\<rparr>) (Repertoire.Noncharacter r)
       @ Surrogate r \<and>
   length (getCodePointsFromRepertoire (Some r)) =
     length (CodePoints r) + length (Reserved r) + length (Repertoire.Noncharacter r)
       + length (Surrogate r)"
  by (simp add: getCodePointsFromRepertoire_Some)

text \<open>
  Claim C2, as stated, fails: the record has no category field, and the two flags that
  \<open>getCodePointsFromRepertoire\<close> sets are ordinary decoded properties, so the output does
  not tell the origin of a record. A reserved-origin record that had \<open>Noncharacter\<close> set
  and a noncharacter-origin record that had \<open>Deprecated\<close> set come out as the same
  record, and so do a normal-origin record with \<open>Deprecated\<close> set (which passes
  unchanged) and the same record of reserved origin without it.
\<close>
theorem flatten_category_counterexample:
  "getCodePointsFromRepertoire
     (Some \<lparr>Reserved = [zeroCodePoint\<lparr>CodePoint.FirstCP := ''FDD0'', CodePoint.LastCP := ''FDEF'',
                           CodePoint.Noncharacter := True\<rparr>],
            Noncharacter = [], Surrogate = [], CodePoints = []\<rparr>) =
     [zeroCodePoint\<lparr>CodePoint.FirstCP := ''FDD0'', CodePoint.LastCP := ''FDEF'',
                    Deprecated := True, CodePoint.Noncharacter := True\<rparr>] \<and>
   getCodePointsFromRepertoire
     (Some \<lparr>Reserved = [],
            Noncharacter = [zeroCodePoint\<lparr>CodePoint.FirstCP := ''FDD0'', CodePoint.LastCP := ''FDEF'',
                              Deprecated := True\<rparr>],
            Surrogate = [], CodePoints = []\<rparr>) =
     [zeroCodePoint\<lparr>CodePoint.FirstCP := ''FDD0'', CodePoint.LastCP := ''FDEF'',
                    Deprecated := True, CodePoint.Noncharacter := True\<rparr>] \<and>
   getCodePointsFromRepertoire
     (Some \<lparr>Reserved = [], Noncharacter = [], Surrogate = [],
            CodePoints = [zeroCodePoint\<lparr>CP := ''0149'', Deprecated := True\<rparr>]\<rparr>) =
     [zeroCodePoint\<lparr>CP := ''0149'', Deprecated := True\<rparr>] \<and>
   getCodePointsFromRepertoire
     (Some \<lparr>Reserved = [zeroCodePoint\<lparr>CP := ''0149''\<rparr>], Noncharacter = [], Surrogate = [],
            CodePoints = []\<rparr>) =
     [zeroCodePoint\<lparr>CP := ''0149'', Deprecated := True\<rparr>]"
  by code_simp

text \<open>
  Claim C2, amended. \<open>getCodePointsFromRepertoire\<close> sets the flag \<open>Deprecated\<close> of every
  record of the reserved slice and the flag \<open>Noncharacter\<close> of every record of the
  noncharacter slice, whatever the flag was before and with no other field changed (the
  other flag included); the records of the normal and of the surrogate slice appear
  unchanged.
\<close>
theorem flatten_category:
  "(\<forall>i < length (CodePoints r).
      getCodePointsFromRepertoire (Some r) ! i = CodePoints r ! i) \<and>
   (\<forall>i < length (Reserved r).
      getCodePointsFromRepertoire (Some r) ! (length (CodePoints r) + i) =
        (Reserved r ! i)\<lparr>Deprecated := True\<rparr>) \<and>
   (\<forall>i < length (Repertoire.Noncharacter r).
      getCodePointsFromRepertoire (Some r) ! (length (CodePoints r) + length (Reserved r) + i) =
        (Repertoire.Noncharacter r ! i)\<lparr>CodePoint.Noncharacter := True\<rparr>) \<and>
   (\<forall>i < length (Surrogate r).
      getCodePointsFromRepertoire (Some r)
        ! (length (CodePoints r) + length (Reserved r) + length (Repertoire.Noncharacter r) + i) =
        Surrogate r ! i)"
  by (simp add: getCodePointsFromRepertoire_Some nth_append)

theorem flatten_category_witness:
  "(0::nat) < length (CodePoints exRepertoire) \<and> 0 < length (Reserved exRepertoire) \<and>
   0 < length (Repertoire.Noncharacter exRepertoire) \<and> 0 < length (Surrogate exRepertoire) \<and>
   getCodePointsFromRepertoire (Some exRepertoire) ! 0 =
     zeroCodePoint\<lparr>CP := ''0149'', Deprecated := True\<rparr> \<and>
   getCodePointsFromRepertoire (Some exRepertoire) ! 1 =
     zeroCodePoint\<lparr>CodePoint.FirstCP := ''0378'', CodePoint.LastCP := ''0379'', Deprecated := True\<rparr> \<and>
   getCodePointsFromRepertoire (Some exRepertoire) ! 2 =
     zeroCodePoint\<lparr>CodePoint.FirstCP := ''FDD0'', CodePoint.LastCP := ''FDEF'',
       CodePoint.Noncharacter := True\<rparr> \<and>
   getCodePointsFromRepertoire (Some exRepertoire) ! 3 =
     zeroCodePoint\<lparr>CodePoint.FirstCP := ''D800'', CodePoint.LastCP := ''DFFF''\<rparr>"
  using flatten_category [of exRepertoire]
  by (simp add: exRepertoire_def numeral_2_eq_2 numeral_3_eq_3)

text \<open>
  Claim C4. In each of the mapping fields that \<open>NormalizeCodePoint\<close> treats (the mirroring
  glyph, the decomposition mapping, the three simple case mappings, the three case
  mappings, the simple case folding and the case folding), the value \<open>#\<close> becomes the
  empty string and every other value is kept. This holds for every record, accepted or
  not.
\<close>
theorem NormalizeCodePoint_hash:
  "BidiMirroringGlyph (NormalizeCodePoint cp) =
     (if BidiMirroringGlyph cp = ''#'' then '''' else BidiMirroringGlyph cp) \<and>
   DecompositionMapping (NormalizeCodePoint cp) =
     (if DecompositionMapping cp = ''#'' then '''' else DecompositionMapping cp) \<and>
   SimpleUppercase (NormalizeCodePoint cp) =
     (if SimpleUppercase cp = ''#'' then '''' else SimpleUppercase cp) \<and>
   SimpleLowercase (NormalizeCodePoint cp) =
     (if SimpleLowercase cp = ''#'' then '''' else SimpleLowercase cp) \<and>
   SimpleTitlecase (NormalizeCodePoint cp) =
     (if SimpleTitlecase cp = ''#'' then '''' else SimpleTitlecase cp) \<and>
   UppercaseMapping (NormalizeCodePoint cp) =
     (if UppercaseMapping cp = ''#'' then '''' else UppercaseMapping cp) \<and>
   LowercaseMapping (NormalizeCodePoint cp) =
     (if LowercaseMapping cp = ''#'' then '''' else LowercaseMapping cp) \<and>
   TitlecaseMapping (NormalizeCodePoint cp) =
     (if TitlecaseMapping cp = ''#'' then '''' else TitlecaseMapping cp) \<and>
   SimpleCaseFolding (NormalizeCodePoint cp) =
     (if SimpleCaseFolding cp = ''#'' then '''' else SimpleCaseFolding cp) \<and>
   CaseFolding (NormalizeCodePoint cp) =
     (if CaseFolding cp = ''#'' then '''' else CaseFolding cp)"
  unfolding NormalizeCodePoint_updates hashToEmpty_def
  by (intro conjI) simp_all

theorem NormalizeCodePoint_hash_witness:
  "ValidateCodePoint (zeroCodePoint\<lparr>CP := ''0041'', BidiMirroringGlyph := ''#'', SimpleLowercase := ''0061''\<rparr>) = None \<and>
   BidiMirroringGlyph (NormalizeCodePoint
     (zeroCodePoint\<lparr>CP := ''0041'', BidiMirroringGlyph := ''#'', SimpleLowercase := ''0061''\<rparr>)) = '''' \<and>
   SimpleLowercase (NormalizeCodePoint
     (zeroCodePoint\<lparr>CP := ''0041'', BidiMirroringGlyph := ''#'', SimpleLowercase := ''0061''\<rparr>)) = ''0061''"
  using NormalizeCodePoint_hash
    [of "zeroCodePoint\<lparr>CP := ''0041'', BidiMirroringGlyph := ''#'', SimpleLowercase := ''0061''\<rparr>"]
  by (simp add: ValidateCodePoint_def zeroCodePoint_def)

text \<open>
  Claim C5. Normalizing a normalized record changes nothing. This holds for every record,
  accepted or not.
\<close>
theorem NormalizeCodePoint_idempotent:
  "NormalizeCodePoint (NormalizeCodePoint cp) = NormalizeCodePoint cp"
  by (simp add: NormalizeCodePoint_updates TrimSpace_idem hashToEmpty_idem)

text \<open>
  Claim C9. \<open>ProcessUCDForMongoDB\<close> returns a nil error for every \<open>UCD\<close>; its code points
  are the extracted records that pass \<open>ValidateCodePoint\<close>, each normalized, in the order
  of the input, and its blocks are the extracted blocks.
\<close>
theorem ProcessUCDForMongoDB_total:
  "ProcessUCDForMongoDB ucd =
     (map NormalizeCodePoint
        (filter (\<lambda>cp. ValidateCodePoint cp = None) (ExtractAllCodePoints ucd)),
      ExtractBlocks ucd, None)"
  by (simp add: ProcessUCDForMongoDB_def processLoop_eq)

section \<open>Properties of the store operations and of the run\<close>

lemma stampCodePoints_eq:
  "stampCodePoints newObjectID now i cps =
     map (\<lambda>(k, cp). cp\<lparr>CodePoint.ID := newObjectID k, CodePoint.CreatedAt := now,
                         CodePoint.UpdatedAt := now\<rparr>) (List.enumerate i cps)"
  by (induction cps arbitrary: i) simp_all

lemma stampBlocks_eq:
  "stampBlocks newObjectID now i bs =
     map (\<lambda>(k, b). b\<lparr>Block.ID := newObjectID k, Block.CreatedAt := now,
                        Block.UpdatedAt := now\<rparr>) (List.enumerate i bs)"
  by (induction bs arbitrary: i) simp_all

lemma stampCodePoints_length: "length (stampCodePoints newObjectID now i cps) = length cps"
  by (simp add: stampCodePoints_eq)

lemma take_min_length: "take (min n (length xs)) xs = take n xs"
  by (cases "n \<le> length xs") (simp_all add: min_def)

lemma batch_slice:
  assumes "i < length documents"
  shows "take (min (i + batchSize) (length documents) - i) (drop i documents) =
           take batchSize (drop i documents)"
proof -
  have "min (i + batchSize) (length documents) - i = min batchSize (length (drop i documents))"
    using assms by (auto simp: min_def)
  then show ?thesis by (simp only: take_min_length)
qed

lemma batch_end:
  "(if i + batchSize > length documents then length documents else i + batchSize) =
     min (i + batchSize) (length documents)"
  by (simp add: min_def)

lemma insertBatches_done:
  "length documents \<le> i \<Longrightarrow> insertBatches insertMany documents i coll = (None, coll)"
  by (subst insertBatches.simps) simp

lemma insertBatches_step_ok:
  assumes "i < length documents" and "insertMany i = InsertOK"
  shows "insertBatches insertMany documents i coll =
           insertBatches insertMany documents (i + batchSize)
             (coll @ take batchSize (drop i documents))"
  using assms
  by (subst insertBatches.simps) (simp add: Let_def InsertMany_def batch_end batch_slice)

lemma insertBatches_step_failed:
  assumes "i < length documents" and "insertMany i = InsertFailed n e"
  shows "insertBatches insertMany documents i coll =
           (Some (ErrInsertCodePointsBatch i (min (i + batchSize) (length documents)) e),
            coll @ take n (take batchSize (drop i documents)))"
  using assms
  by (subst insertBatches.simps)
    (simp add: Let_def InsertMany_def batch_end batch_slice del: take_take)

lemma insertBatches_all_ok:
  assumes "\<forall>j. i + batchSize * j < length documents \<longrightarrow> insertMany (i + batchSize * j) = InsertOK"
  shows "insertBatches insertMany documents i coll = (None, coll @ drop i documents)"
  using assms
proof (induction "length documents - i" arbitrary: i coll rule: less_induct)
  case less
  show ?case
  proof (cases "i < length documents")
    case False
    then show ?thesis by (simp add: insertBatches_done)
  next
    case True
    have ok: "insertMany i = InsertOK"
      using less.prems True by (metis add.right_neutral mult_0_right)
    have next_ok: "\<forall>j. i + batchSize + batchSize * j < length documents \<longrightarrow>
        insertMany (i + batchSize + batchSize * j) = InsertOK"
    proof (intro allI impI)
      fix j
      assume "i + batchSize + batchSize * j < length documents"
      then have "i + batchSize * Suc j < length documents" by (simp add: add.assoc)
      then have "insertMany (i + batchSize * Suc j) = InsertOK" using less.prems by blast
      then show "insertMany (i + batchSize + batchSize * j) = InsertOK" by (simp add: add.assoc)
    qed
    have "length documents - (i + batchSize) < length documents - i"
      using True by (simp add: batchSize_def)
    then have "insertBatches insertMany documents (i + batchSize)
                 (coll @ take batchSize (drop i documents)) =
               (None, (coll @ take batchSize (drop i documents)) @ drop (i + batchSize) documents)"
      using less.hyps next_ok by blast
    moreover have "take batchSize (drop i documents) @ drop (i + batchSize) documents =
                     drop i documents"
      by (metis add.commute append_take_drop_id drop_drop)
    ultimately show ?thesis
      by (simp add: insertBatches_step_ok [where insertMany = insertMany and i = i, OF True ok])
  qed
qed

lemma insertBatches_failed_at:
  assumes "i + batchSize * k < length documents"
    and "\<forall>j<k. insertMany (i + batchSize * j) = InsertOK"
    and "insertMany (i + batchSize * k) = InsertFailed n e"
  shows "insertBatches insertMany documents i coll =
           (Some (ErrInsertCodePointsBatch (i + batchSize * k)
                    (min (i + batchSize * k + batchSize) (length documents)) e),
            coll @ take (batchSize * k) (drop i documents)
              @ take n (take batchSize (drop (i + batchSize * k) documents)))"
  using assms
proof (induction k arbitrary: i coll)
  case 0
  then show ?case by (simp add: insertBatches_step_failed)
next
  case (Suc k)
  have lt: "i < length documents" using Suc.prems(1) by simp
  have ok: "insertMany i = InsertOK" using Suc.prems(2) [rule_format, of 0] by simp
  have 1: "i + batchSize + batchSize * k < length documents"
    using Suc.prems(1) by (simp add: add.assoc)
  have 2: "\<forall>j<k. insertMany (i + batchSize + batchSize * j) = InsertOK"
  proof (intro allI impI)
    fix j assume "j < k"
    then have "Suc j < Suc k" by simp
    then have "insertMany (i + batchSize * Suc j) = InsertOK" using Suc.prems(2) by blast
    then show "insertMany (i + batchSize + batchSize * j) = InsertOK" by (simp add: add.assoc)
  qed
  have 3: "insertMany (i + batchSize + batchSize * k) = InsertFailed n e"
    using Suc.prems(3) by (simp add: add.assoc)
  have "take batchSize (drop i documents) @ take (batchSize * k) (drop (i + batchSize) documents) =
          take (batchSize * Suc k) (drop i documents)"
    by (simp add: take_add add.commute)
  then show ?case
    using Suc.IH [OF 1 2 3, of "coll @ take batchSize (drop i documents)"]
    by (simp add: insertBatches_step_ok [where insertMany = insertMany and i = i, OF lt ok] add.assoc)
qed

lemma insertBatches_None:
  "insertBatches insertMany documents i coll = (None, coll') \<Longrightarrow> coll' = coll @ drop i documents"
proof (induction "length documents - i" arbitrary: i coll rule: less_induct)
  case less
  show ?case
  proof (cases "i < length documents")
    case False
    then show ?thesis using less.prems by (simp add: insertBatches_done)
  next
    case True
    show ?thesis
    proof (cases "insertMany i")
      case InsertOK
      have "length documents - (i + batchSize) < length documents - i"
        using True by (simp add: batchSize_def)
      moreover have "insertBatches insertMany documents (i + batchSize)
                 (coll @ take batchSize (drop i documents)) = (None, coll')"
        using less.prems by (simp add: insertBatches_step_ok [where insertMany = insertMany and i = i, OF True InsertOK])
      ultimately have "coll' = (coll @ take batchSize (drop i documents)) @ drop (i + batchSize) documents"
        using less.hyps by blast
      moreover have "take batchSize (drop i documents) @ drop (i + batchSize) documents =
                     drop i documents"
        by (metis add.commute append_take_drop_id drop_drop)
      ultimately show ?thesis by simp
    next
      case (InsertFailed n e)
      then show ?thesis
        using less.prems by (simp add: insertBatches_step_failed [where insertMany = insertMany and i = i, OF True InsertFailed])
    qed
  qed
qed

text \<open>
  Claim C7. \<open>SaveCodePoints\<close> on an empty slice returns nil and leaves the store as it
  is. On a non-empty slice it first deletes the collection (and stops with an error if
  that fails, the store unchanged); each record gets its own identity from
  \<open>primitive.NewObjectID\<close> and the one time stamp of the call; the documents are inserted
  in batches of 1000 (the last one shorter). If all batches succeed, the collection holds
  exactly the stamped documents. If the batch starting at \<open>1000 * k\<close> is the first to
  fail, the call stops with an error naming the range from \<open>1000 * k\<close> to
  \<open>min (1000 * k + 1000) (length codePoints)\<close>, and the collection keeps the \<open>1000 * k\<close>
  documents of the batches before it (and whatever part of the failed batch the store
  wrote): nothing is rolled back.
\<close>
theorem SaveCodePoints_protocol:
  "(let documents =
          map (\<lambda>(i, cp). cp\<lparr>CodePoint.ID := cpNewObjectID env i, CodePoint.CreatedAt := cpNow env,
                              CodePoint.UpdatedAt := cpNow env\<rparr>) (List.enumerate 0 codePoints)
    in
      SaveCodePoints env [] mc = (None, mc) \<and>
      (codePoints \<noteq> [] \<longrightarrow> cpDeleteMany env = Some e \<longrightarrow>
         SaveCodePoints env codePoints mc = (Some (ErrClearCodePoints e), mc)) \<and>
      (codePoints \<noteq> [] \<longrightarrow> cpDeleteMany env = None \<longrightarrow>
       (\<forall>j. 1000 * j < length codePoints \<longrightarrow> cpInsertMany env (1000 * j) = InsertOK) \<longrightarrow>
         SaveCodePoints env codePoints mc = (None, mc\<lparr>codePointsColl := documents\<rparr>)) \<and>
      (codePoints \<noteq> [] \<longrightarrow> cpDeleteMany env = None \<longrightarrow>
       1000 * k < length codePoints \<longrightarrow>
       (\<forall>j<k. cpInsertMany env (1000 * j) = InsertOK) \<longrightarrow>
       cpInsertMany env (1000 * k) = InsertFailed n e \<longrightarrow>
         SaveCodePoints env codePoints mc =
           (Some (ErrInsertCodePointsBatch (1000 * k) (min (1000 * k + 1000) (length codePoints)) e),
            mc\<lparr>codePointsColl :=
                  take (1000 * k) documents @ take n (take 1000 (drop (1000 * k) documents))\<rparr>)))"
proof -
  let ?docs = "stampCodePoints (cpNewObjectID env) (cpNow env) 0 codePoints"
  have len: "length ?docs = length codePoints" by (rule stampCodePoints_length)
  have empty: "SaveCodePoints env [] mc = (None, mc)"
    by (simp add: SaveCodePoints_def)
  have del: "SaveCodePoints env codePoints mc = (Some (ErrClearCodePoints e), mc)"
    if "codePoints \<noteq> []" "cpDeleteMany env = Some e"
    using that by (simp add: SaveCodePoints_def DeleteMany_def)
  have ok: "SaveCodePoints env codePoints mc = (None, mc\<lparr>codePointsColl := ?docs\<rparr>)"
    if "codePoints \<noteq> []" "cpDeleteMany env = None"
      "\<forall>j. 1000 * j < length codePoints \<longrightarrow> cpInsertMany env (1000 * j) = InsertOK"
  proof -
    have "\<forall>j. 0 + batchSize * j < length ?docs \<longrightarrow> cpInsertMany env (0 + batchSize * j) = InsertOK"
      using that(3) by (simp add: len batchSize_def)
    then have "insertBatches (cpInsertMany env) ?docs 0 [] = (None, [] @ drop 0 ?docs)"
      by (rule insertBatches_all_ok)
    then show ?thesis
      using that(1,2) by (simp add: SaveCodePoints_def DeleteMany_def Let_def)
  qed
  have failed: "SaveCodePoints env codePoints mc =
           (Some (ErrInsertCodePointsBatch (1000 * k) (min (1000 * k + 1000) (length codePoints)) e),
            mc\<lparr>codePointsColl :=
                  take (1000 * k) ?docs @ take n (take 1000 (drop (1000 * k) ?docs))\<rparr>)"
    if "codePoints \<noteq> []" "cpDeleteMany env = None" "1000 * k < length codePoints"
      "\<forall>j<k. cpInsertMany env (1000 * j) = InsertOK"
      "cpInsertMany env (1000 * k) = InsertFailed n e"
  proof -
    have 1: "0 + batchSize * k < length ?docs" using that(3) by (simp add: len batchSize_def)
    have 2: "\<forall>j<k. cpInsertMany env (0 + batchSize * j) = InsertOK"
      using that(4) by (simp add: batchSize_def)
    have 3: "cpInsertMany env (0 + batchSize * k) = InsertFailed n e"
      using that(5) by (simp add: batchSize_def)
    have "insertBatches (cpInsertMany env) ?docs 0 [] =
           (Some (ErrInsertCodePointsBatch (0 + batchSize * k)
                    (min (0 + batchSize * k + batchSize) (length ?docs)) e),
            [] @ take (batchSize * k) (drop 0 ?docs)
              @ take n (take batchSize (drop (0 + batchSize * k) ?docs)))"
      using 1 2 3 by (rule insertBatches_failed_at)
    then show ?thesis
      using that(1,2)
      by (simp add: SaveCodePoints_def DeleteMany_def Let_def len batchSize_def del: take_take)
  qed
  show ?thesis
    unfolding Let_def stampCodePoints_eq [symmetric]
    using empty del ok failed by blast
qed

lemma exCodePoints_length: "length exCodePoints = 1500"
  by (simp add: exCodePoints_def)

theorem SaveCodePoints_protocol_witness:
  "SaveCodePoints exCalls [] exStore = (None, exStore) \<and>
   SaveCodePoints (exCalls\<lparr>cpDeleteMany := Some (DriverError ''timeout'')\<rparr>) exCodePoints exStore =
     (Some (ErrClearCodePoints (DriverError ''timeout'')), exStore) \<and>
   SaveCodePoints exCalls exCodePoints exStore =
     (None, exStore\<lparr>codePointsColl :=
        map (\<lambda>(i, cp). cp\<lparr>CodePoint.ID := 100 + i, CodePoint.CreatedAt := 1700000000,
                            CodePoint.UpdatedAt := 1700000000\<rparr>) (List.enumerate 0 exCodePoints)\<rparr>) \<and>
   SaveCodePoints
       (exCalls\<lparr>cpInsertMany :=
          (\<lambda>i. if i = 1000 then InsertFailed 7 (DriverError ''duplicate key'') else InsertOK)\<rparr>)
       exCodePoints exStore =
     (Some (ErrInsertCodePointsBatch 1000 1500 (DriverError ''duplicate key'')),
      exStore\<lparr>codePointsColl :=
        take 1007 (map (\<lambda>(i, cp). cp\<lparr>CodePoint.ID := 100 + i, CodePoint.CreatedAt := 1700000000,
                            CodePoint.UpdatedAt := 1700000000\<rparr>) (List.enumerate 0 exCodePoints))\<rparr>)"
proof -
  have ne: "exCodePoints \<noteq> []" by (simp add: exCodePoints_def)
  have tk: "take 1000 xs @ take 7 (take 1000 (drop 1000 xs)) = take 1007 xs" for xs :: "CodePoint list"
  proof -
    have "take 7 (take 1000 (drop 1000 xs)) = take 7 (drop 1000 xs)" by simp
    moreover have "take (1000 + 7) xs = take 1000 xs @ take 7 (drop 1000 xs)" by (rule take_add)
    ultimately show ?thesis by simp
  qed
  show ?thesis
    using SaveCodePoints_protocol
        [where env = exCalls and codePoints = exCodePoints and mc = exStore]
      SaveCodePoints_protocol
        [where env = "exCalls\<lparr>cpDeleteMany := Some (DriverError ''timeout'')\<rparr>"
           and codePoints = exCodePoints and mc = exStore and e = "DriverError ''timeout''"]
      SaveCodePoints_protocol
        [where env = "exCalls\<lparr>cpInsertMany :=
            (\<lambda>i. if i = 1000 then InsertFailed 7 (DriverError ''duplicate key'') else InsertOK)\<rparr>"
           and codePoints = exCodePoints and mc = exStore and k = 1 and n = 7
           and e = "DriverError ''duplicate key''"]
    by (simp add: Let_def ne exCodePoints_length exCalls_def tk del: take_take)
qed

lemma find_Some_set: "List.find P xs = Some x \<Longrightarrow> x \<in> set xs \<and> P x"
  by (induction xs) (auto split: if_splits)

text \<open>
  Claim C10. When the store does not fail and no document has the given code value,
  \<open>GetCodePointByCP\<close> returns a nil record and a nil error; it returns an error exactly
  when the store fails otherwise, and then the record is nil; a matching document is
  returned with a nil error.
\<close>
theorem GetCodePointByCP_absent:
  "(failure = None \<longrightarrow> (\<forall>d \<in> set (codePointsColl mc). CP d \<noteq> cp) \<longrightarrow>
      GetCodePointByCP failure cp mc = (None, None)) \<and>
   (snd (GetCodePointByCP failure cp mc) \<noteq> None \<longleftrightarrow> failure \<noteq> None) \<and>
   (failure = Some msg \<longrightarrow>
      GetCodePointByCP failure cp mc = (None, Some (ErrFindCodePoint cp (DriverError msg)))) \<and>
   (failure = None \<longrightarrow> List.find (\<lambda>d. CP d = cp) (codePointsColl mc) = Some d \<longrightarrow>
      GetCodePointByCP failure cp mc = (Some d, None))"
proof (cases failure)
  case (Some m)
  then show ?thesis by (simp add: GetCodePointByCP_def FindOneByCP_def)
next
  case None
  show ?thesis
  proof (cases "List.find (\<lambda>d. CP d = cp) (codePointsColl mc)")
    case absent: None
    then show ?thesis using None by (simp add: GetCodePointByCP_def FindOneByCP_def)
  next
    case (Some x)
    then have "x \<in> set (codePointsColl mc) \<and> CP x = cp" by (rule find_Some_set)
    then show ?thesis using None Some by (auto simp: GetCodePointByCP_def FindOneByCP_def)
  qed
qed

theorem GetCodePointByCP_absent_witness:
  "GetCodePointByCP None ''0041'' exStore = (None, None) \<and>
   GetCodePointByCP (Some ''connection reset'') ''0041'' exStore =
     (None, Some (ErrFindCodePoint ''0041'' (DriverError ''connection reset''))) \<and>
   GetCodePointByCP None ''0042'' exStore =
     (Some (zeroCodePoint\<lparr>CodePoint.ID := 8, CP := ''0042''\<rparr>), None)"
  using GetCodePointByCP_absent [of None exStore "''0041''"]
    GetCodePointByCP_absent [of "Some ''connection reset''" exStore "''0041''" "''connection reset''"]
    GetCodePointByCP_absent [of None exStore "''0042''" _ "zeroCodePoint\<lparr>CodePoint.ID := 8, CP := ''0042''\<rparr>"]
  by (simp add: exStore_def)

lemma unstamp_stampCodePoints:
  "map unstampCodePoint (stampCodePoints newObjectID now i cps) = map unstampCodePoint cps"
  by (induction cps arbitrary: i) (simp_all add: unstampCodePoint_def)

lemma unstamp_stampBlocks:
  "map unstampBlock (stampBlocks newObjectID now i bs) = map unstampBlock bs"
  by (induction bs arbitrary: i) (simp_all add: unstampBlock_def)

lemma SaveUCD_None:
  assumes "SaveUCD env u mc = (None, mc')"
  shows "codePointsColl mc' = codePointsColl mc \<and> blocksColl mc' = blocksColl mc \<and>
         map unstampUCD (ucdColl mc') =
           [\<lparr>UCD.ID = NilObjectID, Xmlns = '''', Description = Description u, Repertoire = None,
             Blocks = None, CreatedAt = zeroTime, UpdatedAt = zeroTime, Version = Version u\<rparr>]"
  using assms
  by (auto simp: SaveUCD_def Drop_def Let_def unstampUCD_def split: option.splits sum.splits)

lemma SaveCodePoints_None:
  assumes "SaveCodePoints env cps mc = (None, mc')"
  shows "ucdColl mc' = ucdColl mc \<and> blocksColl mc' = blocksColl mc \<and>
         (if cps = [] then codePointsColl mc' = codePointsColl mc
          else map unstampCodePoint (codePointsColl mc') = map unstampCodePoint cps)"
proof (cases "cps = []")
  case True
  then show ?thesis using assms by (auto simp: SaveCodePoints_def)
next
  case False
  let ?docs = "stampCodePoints (cpNewObjectID env) (cpNow env) 0 cps"
  obtain err coll' where ib: "insertBatches (cpInsertMany env) ?docs 0 [] = (err, coll')"
    by (cases "insertBatches (cpInsertMany env) ?docs 0 []") auto
  from assms False have del: "cpDeleteMany env = None"
    by (cases "cpDeleteMany env") (simp_all add: SaveCodePoints_def DeleteMany_def)
  from assms False del ib have res: "err = None" "mc' = mc\<lparr>codePointsColl := coll'\<rparr>"
    by (simp_all add: SaveCodePoints_def DeleteMany_def Let_def)
  from ib res(1) have "insertBatches (cpInsertMany env) ?docs 0 [] = (None, coll')" by simp
  then have "coll' = [] @ drop 0 ?docs" by (rule insertBatches_None)
  then have "coll' = ?docs" by simp
  then show ?thesis using False res(2) by (simp add: unstamp_stampCodePoints)
qed

lemma SaveBlocks_None:
  assumes "SaveBlocks env bs mc = (None, mc')"
  shows "ucdColl mc' = ucdColl mc \<and> codePointsColl mc' = codePointsColl mc \<and>
         (if bs = [] then blocksColl mc' = blocksColl mc
          else map unstampBlock (blocksColl mc') = map unstampBlock bs)"
proof (cases "bs = []")
  case True
  then show ?thesis using assms by (auto simp: SaveBlocks_def)
next
  case False
  from assms False have del: "blkDeleteMany env = None"
    by (cases "blkDeleteMany env") (simp_all add: SaveBlocks_def DeleteMany_def)
  from assms False del have ins: "blkInsertMany env = InsertOK"
    by (cases "blkInsertMany env") (simp_all add: SaveBlocks_def DeleteMany_def InsertMany_def Let_def)
  from assms False del ins
  have "mc' = mc\<lparr>blocksColl := stampBlocks (blkNewObjectID env) (blkNow env) 0 bs\<rparr>"
    by (simp add: SaveBlocks_def DeleteMany_def InsertMany_def Let_def)
  then show ?thesis using False by (simp add: unstamp_stampBlocks)
qed

lemma main_None:
  assumes "main env ucd mc = (None, mc')"
  shows "map unstampUCD (ucdColl mc') =
           [\<lparr>UCD.ID = NilObjectID, Xmlns = '''', Description = Description ucd, Repertoire = None,
             Blocks = None, CreatedAt = zeroTime, UpdatedAt = zeroTime, Version = ''16.0.0''\<rparr>] \<and>
         (if fst (ProcessUCDForMongoDB ucd) = [] then codePointsColl mc' = codePointsColl mc
          else map unstampCodePoint (codePointsColl mc') =
                 map unstampCodePoint (fst (ProcessUCDForMongoDB ucd))) \<and>
         (if ExtractBlocks ucd = [] then blocksColl mc' = blocksColl mc
          else map unstampBlock (blocksColl mc') = map unstampBlock (ExtractBlocks ucd))"
proof -
  define cps where "cps = fst (ProcessUCDForMongoDB ucd)"
  define u where "u = ucd\<lparr>Version := ''16.0.0''\<rparr>"
  have p: "ProcessUCDForMongoDB ucd = (cps, ExtractBlocks ucd, None)"
    by (simp add: cps_def ProcessUCDForMongoDB_eq)
  obtain e1 mc1 where s1: "SaveUCD (ucdCalls env) u mc = (e1, mc1)"
    by (cases "SaveUCD (ucdCalls env) u mc") auto
  obtain e2 mc2 where s2: "SaveCodePoints (cpCalls env) cps mc1 = (e2, mc2)"
    by (cases "SaveCodePoints (cpCalls env) cps mc1") auto
  have m: "main env ucd mc =
      (case connectFailure env of
         Some msg \<Rightarrow> (Some (ErrConnect msg), mc)
       | None \<Rightarrow>
      (case createIndexesFailure env of
         Some msg \<Rightarrow> (Some (ErrCreateIndexes msg), mc)
       | None \<Rightarrow>
      (case e1 of Some e \<Rightarrow> (Some e, mc1)
       | None \<Rightarrow>
      (case e2 of Some e \<Rightarrow> (Some e, mc2)
       | None \<Rightarrow> SaveBlocks (blkCalls env) (ExtractBlocks ucd) mc2))))"
    by (simp add: main_def p s1 [unfolded u_def] s2 split: option.splits)
  from assms m have e1: "e1 = None"
    by (auto split: option.splits)
  from assms m e1 have e2: "e2 = None"
    by (auto split: option.splits)
  from assms m e1 e2 have s3: "SaveBlocks (blkCalls env) (ExtractBlocks ucd) mc2 = (None, mc')"
    by (auto split: option.splits)
  note r1 = SaveUCD_None [OF s1 [unfolded e1]]
  note r2 = SaveCodePoints_None [OF s2 [unfolded e2]]
  note r3 = SaveBlocks_None [OF s3]
  have v: "Version u = ''16.0.0''" "Description u = Description ucd" by (simp_all add: u_def)
  show ?thesis
    unfolding cps_def [symmetric]
    using r1 r2 r3 v by (auto split: if_splits)
qed

text \<open>
  Claim C8, as stated, fails: not every save is a destructive replace. \<open>SaveCodePoints\<close>
  and \<open>SaveBlocks\<close> return before they delete when their input is empty, so a run on a
  source without code points ends without error and leaves a stale code point in place;
  started in an empty store, the same run leaves none. The final documents depend on
  the store the run starts in.
\<close>
theorem main_stale_survives_counterexample:
  "fst (main (exEnv 1700000000 100) zeroUCD exStore) = None \<and>
   codePointsColl (snd (main (exEnv 1700000000 100) zeroUCD exStore)) =
     [zeroCodePoint\<lparr>CodePoint.ID := 8, CP := ''0042''\<rparr>] \<and>
   fst (main (exEnv 1700000000 100) zeroUCD
          \<lparr>ucdColl = [], codePointsColl = [], blocksColl = []\<rparr>) = None \<and>
   codePointsColl (snd (main (exEnv 1700000000 100) zeroUCD
          \<lparr>ucdColl = [], codePointsColl = [], blocksColl = []\<rparr>)) = [] \<and>
   contents (snd (main (exEnv 1700000000 100) zeroUCD exStore)) \<noteq>
     contents (snd (main (exEnv 1700000000 100) zeroUCD
          \<lparr>ucdColl = [], codePointsColl = [], blocksColl = []\<rparr>))"
  by code_simp

text \<open>
  Claim C8, amended. A run of \<open>main\<close> that ends without error leaves, up to identities
  and time stamps: exactly one metadata document, with the description of the source and
  the version 16.0.0; in the code-point collection exactly the accepted, normalized
  records in their order if there is at least one, and what the collection held before
  if there is none; in the block collection exactly the blocks of the source if there
  is at least one, and what the collection held before if there is none. Hence a second
  run on the same source that ends without error leaves the documents the first run
  left. This holds for every store \<open>mc0\<close> the first run starts in.
\<close>
theorem main_replaces_nonempty:
  assumes "main env1 ucd mc0 = (None, mc1)"
  shows "map unstampUCD (ucdColl mc1) =
           [\<lparr>UCD.ID = NilObjectID, Xmlns = '''', Description = Description ucd, Repertoire = None,
             Blocks = None, CreatedAt = zeroTime, UpdatedAt = zeroTime, Version = ''16.0.0''\<rparr>] \<and>
         (if fst (ProcessUCDForMongoDB ucd) = [] then codePointsColl mc1 = codePointsColl mc0
          else map unstampCodePoint (codePointsColl mc1) =
                 map unstampCodePoint (fst (ProcessUCDForMongoDB ucd))) \<and>
         (if ExtractBlocks ucd = [] then blocksColl mc1 = blocksColl mc0
          else map unstampBlock (blocksColl mc1) = map unstampBlock (ExtractBlocks ucd)) \<and>
         (main env2 ucd mc1 = (None, mc2) \<longrightarrow> contents mc2 = contents mc1)"
proof -
  note a = main_None [OF assms]
  have "contents mc2 = contents mc1" if run2: "main env2 ucd mc1 = (None, mc2)"
  proof -
    note b = main_None [OF run2]
    have "map unstampUCD (ucdColl mc2) = map unstampUCD (ucdColl mc1)"
      using a b by simp
    moreover have "map unstampCodePoint (codePointsColl mc2) = map unstampCodePoint (codePointsColl mc1)"
      using a b by (simp split: if_splits)
    moreover have "map unstampBlock (blocksColl mc2) = map unstampBlock (blocksColl mc1)"
      using a b by (simp split: if_splits)
    ultimately show ?thesis by (simp add: contents_def)
  qed
  with a show ?thesis by blast
qed

lemma ex_run1: "fst (main (exEnv 1700000000 100) exUCD exStore) = None"
  by code_simp

lemma ex_run2:
  "fst (main (exEnv 1800000000 5000) exUCD (snd (main (exEnv 1700000000 100) exUCD exStore))) = None"
  by code_simp

lemma ex_processed:
  "fst (ProcessUCDForMongoDB exUCD) =
     [zeroCodePoint\<lparr>CP := ''0041'', CodePoint.Name := ''LATIN CAPITAL LETTER A''\<rparr>,
      zeroCodePoint\<lparr>CodePoint.FirstCP := ''0378'', CodePoint.LastCP := ''0379'', Deprecated := True\<rparr>]"
  by code_simp

lemma ex_blocks:
  "ExtractBlocks exUCD =
     [\<lparr>Block.ID = NilObjectID, Block.FirstCP = ''0000'', Block.LastCP = ''007F'',
       Block.Name = ''ASCII'', Block.CreatedAt = zeroTime, Block.UpdatedAt = zeroTime\<rparr>]"
  by code_simp

theorem main_replaces_nonempty_witness:
  "fst (main (exEnv 1700000000 100) exUCD exStore) = None \<and>
   fst (main (exEnv 1800000000 5000) exUCD (snd (main (exEnv 1700000000 100) exUCD exStore))) = None \<and>
   map unstampCodePoint (codePointsColl (snd (main (exEnv 1700000000 100) exUCD exStore))) =
     [zeroCodePoint\<lparr>CP := ''0041'', CodePoint.Name := ''LATIN CAPITAL LETTER A''\<rparr>,
      zeroCodePoint\<lparr>CodePoint.FirstCP := ''0378'', CodePoint.LastCP := ''0379'', Deprecated := True\<rparr>] \<and>
   map unstampBlock (blocksColl (snd (main (exEnv 1700000000 100) exUCD exStore))) =
     [\<lparr>Block.ID = NilObjectID, Block.FirstCP = ''0000'', Block.LastCP = ''007F'',
       Block.Name = ''ASCII'', Block.CreatedAt = zeroTime, Block.UpdatedAt = zeroTime\<rparr>] \<and>
   contents (snd (main (exEnv 1800000000 5000) exUCD
                (snd (main (exEnv 1700000000 100) exUCD exStore)))) =
     contents (snd (main (exEnv 1700000000 100) exUCD exStore))"
proof -
  let ?mc1 = "snd (main (exEnv 1700000000 100) exUCD exStore)"
  let ?mc2 = "snd (main (exEnv 1800000000 5000) exUCD ?mc1)"
  have 1: "main (exEnv 1700000000 100) exUCD exStore = (None, ?mc1)"
    using ex_run1 by (simp add: prod_eq_iff)
  have 2: "main (exEnv 1800000000 5000) exUCD ?mc1 = (None, ?mc2)"
    using ex_run2 by (simp add: prod_eq_iff)
  have u: "map unstampCodePoint (fst (ProcessUCDForMongoDB exUCD)) = fst (ProcessUCDForMongoDB exUCD)"
    by (simp add: ex_processed unstampCodePoint_def zeroCodePoint_def)
  have v: "map unstampBlock (ExtractBlocks exUCD) = ExtractBlocks exUCD"
    by (simp add: ex_blocks unstampBlock_def)
  have ne: "fst (ProcessUCDForMongoDB exUCD) \<noteq> []" "ExtractBlocks exUCD \<noteq> []"
    by (simp_all add: ex_processed ex_blocks)
  show ?thesis
    using main_replaces_nonempty [OF 1, of "exEnv 1800000000 5000" ?mc2] 2 ex_run1 ex_run2 ne u v
    by (simp add: ex_processed ex_blocks)
qed

end
